theory Spec2Isabelle
  imports Main "HOL-Library.Sublist"
begin

section \<open>Python values\<close>

text \<open>
  The plan compiler works on the dynamically typed trees the notation parser returns:
  \<^verbatim>\<open>None\<close>, booleans, integers, floats, strings, lists and dictionaries with string keys.
  A dictionary keeps its insertion order, so it is an association list with distinct keys.
  A float is carried by the text Python prints for it (\<^verbatim>\<open>str(value)\<close>); reading a float
  from a token is left to a parameter of the parser.

  A text is modelled by an Isabelle string read as the Python \<^verbatim>\<open>str\<close> with the same code
  points, all of them below 128 (\<open>isascii\<close> below). On such texts \<^verbatim>\<open>str.upper()\<close>,
  \<^verbatim>\<open>str.lower()\<close>, \<^verbatim>\<open>str.strip()\<close> and the classes \<^verbatim>\<open>\w\<close>, \<^verbatim>\<open>\s\<close> and \<^verbatim>\<open>\b\<close> of \<^verbatim>\<open>re\<close> are
  the functions defined below. Python's versions are Unicode-aware, so outside ASCII they
  differ from these (\<^verbatim>\<open>\w\<close> also holds accented letters, \<^verbatim>\<open>upper()\<close> also maps them): a
  general statement about a function that reads a text through them is made for ASCII
  texts only.
\<close>

datatype pyval =
    PNone
  | PBool bool
  | PInt int
  | PFloat string
  | PStr string
  | PList "pyval list"
  | PDict "(string \<times> pyval) list"

type_synonym pydict = "(string \<times> pyval) list"

datatype parse_msg =
    UnmatchedBrace nat
  | UnmatchedBracket nat
  | UnterminatedString nat

datatype validation_msg =
    ForbiddenKeyword string
  | InvalidVisualizationType string "string set"
  | AxisRequired string

datatype error =
    ToonParseError parse_msg
  | ValidationError validation_msg
  | AttributeError
  | TypeError

text \<open>\<^verbatim>\<open>d.get(k)\<close>, \<^verbatim>\<open>d.get(k, default)\<close>, \<^verbatim>\<open>d[k] = v\<close> and the removal of a key.\<close>

definition dict_get :: "pydict \<Rightarrow> string \<Rightarrow> pyval \<Rightarrow> pyval" where
  "dict_get d k dflt = (case map_of d k of None \<Rightarrow> dflt | Some v \<Rightarrow> v)"

fun dict_set :: "string \<Rightarrow> pyval \<Rightarrow> pydict \<Rightarrow> pydict" where
  "dict_set k v [] = [(k, v)]"
| "dict_set k v ((k', v') # d) =
     (if k = k' then (k, v) # d else (k', v') # dict_set k v d)"

definition dict_del :: "string \<Rightarrow> pydict \<Rightarrow> pydict" where
  "dict_del k d = filter (\<lambda>kv. fst kv \<noteq> k) d"

text \<open>Truthiness, as \<^verbatim>\<open>if x:\<close> and \<^verbatim>\<open>not x\<close> test it.\<close>

fun truthy :: "pyval \<Rightarrow> bool" where
  "truthy PNone = False"
| "truthy (PBool b) = b"
| "truthy (PInt i) = (i \<noteq> 0)"
| "truthy (PFloat r) = (r \<noteq> ''0.0'' \<and> r \<noteq> ''-0.0'')"
| "truthy (PStr s) = (s \<noteq> [])"
| "truthy (PList xs) = (xs \<noteq> [])"
| "truthy (PDict d) = (d \<noteq> [])"

section \<open>Characters and strings\<close>

definition ord :: "char \<Rightarrow> nat" where
  "ord c = of_char c"


definition is_digit :: "char \<Rightarrow> bool" where
  "is_digit c = (48 \<le> ord c \<and> ord c \<le> 57)"

definition is_upper :: "char \<Rightarrow> bool" where
  "is_upper c = (65 \<le> ord c \<and> ord c \<le> 90)"

definition is_lower :: "char \<Rightarrow> bool" where
  "is_lower c = (97 \<le> ord c \<and> ord c \<le> 122)"

text \<open>
  The class \<^verbatim>\<open>\w\<close> on ASCII code points: letters, digits and the underscore. On a \<^verbatim>\<open>str\<close>
  pattern Python's class also holds the letters and digits beyond code point 127.
\<close>

definition is_word :: "char \<Rightarrow> bool" where
  "is_word c = (is_digit c \<or> is_upper c \<or> is_lower c \<or> c = CHR ''_'')"

text \<open>
  The class \<^verbatim>\<open>\s\<close>, which is also what \<^verbatim>\<open>str.strip()\<close> removes: tab, line feed,
  vertical tab, form feed, carriage return, the four separators 28 to 31, and the space.
\<close>

definition is_space :: "char \<Rightarrow> bool" where
  "is_space c = ((9 \<le> ord c \<and> ord c \<le> 13) \<or> (28 \<le> ord c \<and> ord c \<le> 32))"

text \<open>The four characters of the literal \<^verbatim>\<open>" \t\n\r"\<close> that the parser's loops skip.\<close>

definition is_blank :: "char \<Rightarrow> bool" where
  "is_blank c = (c = CHR '' '' \<or> c = CHR 0x09 \<or> c = CHR 0x0A \<or> c = CHR 0x0D)"

text \<open>
  \<^verbatim>\<open>str.upper()\<close> and \<^verbatim>\<open>str.lower()\<close> on ASCII code points: the 26 letters change case and
  every other code point below 128 is kept. Python's functions also map letters beyond
  code point 127, some of them onto ASCII letters.
\<close>

definition upper_char :: "char \<Rightarrow> char" where
  "upper_char c = (if is_lower c then char_of (ord c - 32) else c)"

definition lower_char :: "char \<Rightarrow> char" where
  "lower_char c = (if is_upper c then char_of (ord c + 32) else c)"


definition lower :: "string \<Rightarrow> string" where
  "lower s = map lower_char s"

definition strip :: "string \<Rightarrow> string" where
  "strip s = rev (dropWhile is_space (rev (dropWhile is_space s)))"

text \<open>\<^verbatim>\<open>sub in s\<close> on strings.\<close>

fun contains :: "string \<Rightarrow> string \<Rightarrow> bool" where
  "contains sub [] = (sub = [])"
| "contains sub (c # cs) = (prefix sub (c # cs) \<or> contains sub cs)"

text \<open>The slice \<^verbatim>\<open>s[a:b]\<close> for indices that are not negative.\<close>

definition slice :: "'a list \<Rightarrow> nat \<Rightarrow> nat \<Rightarrow> 'a list" where
  "slice s a b = take (b - a) (drop a s)"

fun join :: "string \<Rightarrow> string list \<Rightarrow> string" where
  "join sep [] = []"
| "join sep [x] = x"
| "join sep (x # y # ys) = x @ sep @ join sep (y # ys)"

section \<open>Regular expressions\<close>

text \<open>
  The patterns of the source use character classes, greedy repetition of a class,
  sequencing and one optional group. \<open>rx_match r s\<close> lists what is left of \<open>s\<close> after each
  way of matching \<open>r\<close> at its start, in the order Python's backtracking matcher tries them:
  the longest repetition first, the optional group present before absent.
\<close>

datatype rx =
    Cls "char \<Rightarrow> bool"
  | Star "char \<Rightarrow> bool"
  | Plus "char \<Rightarrow> bool"
  | Seq rx rx
  | Opt rx

fun star_match :: "(char \<Rightarrow> bool) \<Rightarrow> string \<Rightarrow> string list" where
  "star_match p [] = [[]]"
| "star_match p (c # cs) = (if p c then star_match p cs @ [c # cs] else [c # cs])"

fun rx_match :: "rx \<Rightarrow> string \<Rightarrow> string list" where
  "rx_match (Cls p) s = (case s of [] \<Rightarrow> [] | c # cs \<Rightarrow> if p c then [cs] else [])"
| "rx_match (Star p) s = star_match p s"
| "rx_match (Plus p) s = (case s of [] \<Rightarrow> [] | c # cs \<Rightarrow> if p c then star_match p cs else [])"
| "rx_match (Seq a b) s = concat (map (rx_match b) (rx_match a s))"
| "rx_match (Opt a) s = rx_match a s @ [s]"

text \<open>A literal text, and the same under \<^verbatim>\<open>re.IGNORECASE\<close>.\<close>

fun lit :: "string \<Rightarrow> rx" where
  "lit [] = Opt (Cls (\<lambda>_. False))"
| "lit [c] = Cls (\<lambda>x. x = c)"
| "lit (c # cs) = Seq (Cls (\<lambda>x. x = c)) (lit cs)"

fun lit_i :: "string \<Rightarrow> rx" where
  "lit_i [] = Opt (Cls (\<lambda>_. False))"
| "lit_i [c] = Cls (\<lambda>x. lower_char x = lower_char c)"
| "lit_i (c # cs) = Seq (Cls (\<lambda>x. lower_char x = lower_char c)) (lit_i cs)"

definition first :: "'a list \<Rightarrow> 'a option" where
  "first xs = (case xs of [] \<Rightarrow> None | x # _ \<Rightarrow> Some x)"

text \<open>
  \<^verbatim>\<open>re.search\<close>: the match attempt \<open>m\<close> is tried at every suffix from the left; the result
  is the text before the match and what \<open>m\<close> returned.
\<close>

fun re_search :: "(string \<Rightarrow> 'a option) \<Rightarrow> string \<Rightarrow> (string \<times> 'a) option" where
  "re_search m [] = map_option (Pair []) (m [])"
| "re_search m (c # cs) =
     (case m (c # cs) of
        Some r \<Rightarrow> Some ([], r)
      | None \<Rightarrow> map_option (\<lambda>(pre, r). (c # pre, r)) (re_search m cs))"

section \<open>The plan validator\<close>









definition valid_types :: "string set" where
  "valid_types = {''bar'', ''line'', ''stat'', ''table'', ''pie'', ''gauge''}"

definition validate_visualization :: "pydict \<Rightarrow> string \<Rightarrow> error + unit" where
  "validate_visualization viz sql =
     (case dict_get viz ''type'' (PStr []) of
        PStr t \<Rightarrow>
          (let viz_type = lower t in
           if viz_type \<noteq> [] \<and> viz_type \<notin> valid_types
           then Inl (ValidationError (InvalidVisualizationType viz_type valid_types))
           else if viz_type \<in> {''bar'', ''line'', ''pie''}
                   \<and> \<not> truthy (dict_get viz ''x'' PNone) \<and> \<not> truthy (dict_get viz ''y'' PNone)
           then Inl (ValidationError (AxisRequired viz_type))
           else Inr ())
      | _ \<Rightarrow> Inl AttributeError)"

text \<open>The fourteen members of the panel type enumeration.\<close>

definition panel_types :: "string list" where
  "panel_types =
     [''bar'', ''line'', ''stat'', ''table'', ''pie'', ''gauge'', ''heatmap'', ''histogram'',
      ''state_timeline'', ''status_history'', ''candlestick'', ''trend'', ''xy'', ''bar_gauge'']"



section \<open>The dashboard generator\<close>

text \<open>
  A pattern made of consecutive groups: \<open>groups_match\<close> lists, in backtracking order, the
  texts of the groups and what is left of the input. \<^verbatim>\<open>re.sub(..., count=1)\<close> with a
  replacement function rewrites the leftmost match and keeps the rest.
\<close>

fun groups_match :: "rx list \<Rightarrow> string \<Rightarrow> (string list \<times> string) list" where
  "groups_match [] s = [([], s)]"
| "groups_match (g # gs) s =
     concat (map (\<lambda>r. map (\<lambda>(ts, rest). (take (length s - length r) s # ts, rest))
                          (groups_match gs r))
                 (rx_match g s))"

definition re_sub1 :: "rx list \<Rightarrow> (string list \<Rightarrow> string) \<Rightarrow> string \<Rightarrow> string" where
  "re_sub1 gs repl s =
     (case re_search (\<lambda>t. first (groups_match gs t)) s of
        None \<Rightarrow> s
      | Some (pre, (ts, rest)) \<Rightarrow> pre @ repl ts @ rest)"

definition time_keywords :: "string list" where
  "time_keywords =
     [''date'', ''time'', ''created'', ''updated'', ''at'', ''timestamp'', ''datetime'', ''when'']"

text \<open>The pieces of the patterns: \<^verbatim>\<open>SELECT\s+\<close>, \<^verbatim>\<open>[\w\s,.\(\)\'\"*]+,\s*\<close> and \<^verbatim>\<open>\s*[,\s]\<close>.\<close>

definition select_rx :: rx where
  "select_rx = Seq (lit_i ''SELECT'') (Plus is_space)"

definition between_class :: "char \<Rightarrow> bool" where
  "between_class c =
     (is_word c \<or> is_space c \<or> c = CHR '','' \<or> c = CHR ''.'' \<or> c = CHR ''('' \<or> c = CHR '')''
      \<or> c = CHR 0x27 \<or> c = CHR 0x22 \<or> c = CHR ''*'')"

definition between_rx :: rx where
  "between_rx = Seq (Plus between_class) (Seq (Cls (\<lambda>c. c = CHR '','')) (Star is_space))"

definition suffix_rx :: rx where
  "suffix_rx = Seq (Star is_space) (Cls (\<lambda>c. c = CHR '','' \<or> is_space c))"

definition strftime_wrap :: "string \<Rightarrow> string" where
  "strftime_wrap col =
     ''strftime('' @ col @ '', '' @ [CHR 0x27] @ ''%Y-%m-%d'' @ [CHR 0x27] @ '') AS '' @ col"

definition normalize_time_columns :: "string \<Rightarrow> string option \<Rightarrow> string" where
  "normalize_time_columns sql x_column =
     (case x_column of
        None \<Rightarrow> sql
      | Some x \<Rightarrow>
          if sql = [] \<or> x = [] then sql
          else if \<not> list_ex (\<lambda>kw. contains kw (lower x)) time_keywords then sql
          else if contains (''strftime('' @ x) (lower sql)
                  \<or> contains (''strftime( '' @ x) (lower sql) then sql
          else
            (let result =
                   re_sub1 [select_rx, Opt between_rx, lit_i x, suffix_rx]
                     (\<lambda>ts. case ts of
                              [pre, between, col, suf] \<Rightarrow>
                                pre @ between @ strftime_wrap col @ suf
                            | _ \<Rightarrow> [])
                     sql
             in if result = sql
                then re_sub1 [select_rx, lit_i x, suffix_rx]
                       (\<lambda>ts. case ts of
                                [g1, g2, g3] \<Rightarrow> g1 @ strftime_wrap g2 @ g3
                              | _ \<Rightarrow> [])
                       sql
                else result))"

text \<open>
  Identifiers come from \<^verbatim>\<open>uuid.uuid4()\<close>. The draw is an input of the model: a UUID is the
  natural number it encodes, its hash is that number modulo \<open>2^61 - 1\<close> (which is
  2305843009213693951), and its \<^verbatim>\<open>hex\<close>
  is the number in 32 lower-case hexadecimal digits.
\<close>

definition generate_panel_id :: "nat \<Rightarrow> int" where
  "generate_panel_id u = \<bar>int u mod 2305843009213693951\<bar> mod 1000000"

fun hex_digits :: "nat \<Rightarrow> nat \<Rightarrow> string" where
  "hex_digits 0 u = []"
| "hex_digits (Suc n) u = hex_digits n (u div 16) @ [''0123456789abcdef'' ! (u mod 16)]"

definition generate_uid :: "nat \<Rightarrow> string" where
  "generate_uid u = take 12 (hex_digits 32 u)"

text \<open>\<^verbatim>\<open>re.search(r'SELECT\s+(\w+)', sql, re.IGNORECASE)\<close> and its first group.\<close>

definition select_first_column :: "string \<Rightarrow> string option" where
  "select_first_column sql =
     (case re_search (\<lambda>t. first (groups_match [select_rx, Plus is_word] t)) sql of
        Some (pre, ([g0, g1], rest)) \<Rightarrow> Some g1
      | _ \<Rightarrow> None)"

definition cast_rewrite :: "string \<Rightarrow> string \<Rightarrow> string" where
  "cast_rewrite sql x_col =
     re_sub1 [select_rx, lit_i x_col, suffix_rx]
       (\<lambda>ts. case ts of
                [g1, g2, g3] \<Rightarrow> g1 @ ''CAST('' @ g2 @ '' AS VARCHAR) AS '' @ g2 @ g3
              | _ \<Rightarrow> [])
       sql"

text \<open>
  The query rewriting of the \<^verbatim>\<open>bar\<close> branch: the result is the query the panel carries
  and the x column. The query is annotated as a string; the callers read it out of a
  dictionary, so the other values are followed too, up to the exception Python raises.
\<close>

definition bar_query :: "pydict \<Rightarrow> pyval \<Rightarrow> error + (pyval \<times> pyval)" where
  "bar_query panel_spec sql =
     (let x_spec = dict_get panel_spec ''x'' PNone in
      case sql of
        PStr s \<Rightarrow>
          (let x_col = (if truthy x_spec then x_spec
                        else case select_first_column s of
                               Some g \<Rightarrow> PStr g
                             | None \<Rightarrow> x_spec)
           in if \<not> truthy x_col then Inr (PStr s, x_col)
              else case x_col of
                     PStr xc \<Rightarrow>
                       (let normalized_sql = normalize_time_columns s (Some xc) in
                        if lower xc \<noteq> ''strftime''
                           \<and> \<not> contains (''CAST('' @ xc) normalized_sql
                           \<and> \<not> contains (''strftime('' @ xc) (lower normalized_sql)
                           \<and> normalized_sql = s
                        then Inr (PStr (cast_rewrite s xc), x_col)
                        else Inr (PStr normalized_sql, x_col))
                   | _ \<Rightarrow> Inl AttributeError)
      | _ \<Rightarrow>
          (if \<not> truthy x_spec then Inl TypeError
           else case x_spec of
                  PStr xc \<Rightarrow>
                    if truthy sql \<and> list_ex (\<lambda>kw. contains kw (lower xc)) time_keywords
                    then Inl AttributeError
                    else if lower xc = ''strftime'' then Inr (sql, x_spec)
                    else (case sql of
                            PList l \<Rightarrow>
                              if PStr (''CAST('' @ xc) \<in> set l then Inr (sql, x_spec)
                              else Inl AttributeError
                          | PDict d \<Rightarrow>
                              if (''CAST('' @ xc) \<in> fst ` set d then Inr (sql, x_spec)
                              else Inl AttributeError
                          | _ \<Rightarrow> Inl TypeError)
                | _ \<Rightarrow> Inl AttributeError))"

definition legend :: "string \<Rightarrow> pyval" where
  "legend placement = PDict [(''displayMode'', PStr ''list''), (''placement'', PStr placement)]"

definition tooltip_single :: pyval where
  "tooltip_single = PDict [(''mode'', PStr ''single'')]"

definition reduce_options :: "bool \<Rightarrow> pyval" where
  "reduce_options vals =
     PDict [(''calcs'', PList [PStr ''lastNotNull'']), (''fields'', PStr []),
            (''values'', PBool vals)]"

definition color_mode :: "string \<Rightarrow> pyval" where
  "color_mode m = PDict [(''mode'', PStr m)]"

definition threshold_steps :: "(string \<times> pyval) list \<Rightarrow> pyval" where
  "threshold_steps steps =
     PDict [(''mode'', PStr ''absolute''),
            (''steps'', PList (map (\<lambda>(c, v). PDict [(''color'', PStr c), (''value'', v)]) steps))]"

definition line_custom :: pyval where
  "line_custom =
     PDict [(''lineWidth'', PInt 2), (''fillOpacity'', PInt 10), (''pointSize'', PInt 5)]"

text \<open>
  The branches of \<^verbatim>\<open>generate_panel\<close> after \<^verbatim>\<open>bar\<close>: the entries each one adds to the
  panel, and the default branch last.
\<close>

definition panel_block :: "pyval \<Rightarrow> pydict" where
  "panel_block panel_type =
     (if panel_type = PStr ''line'' then
        [(''type'', PStr ''timeseries''),
         (''options'', PDict [(''legend'', legend ''bottom''), (''tooltip'', tooltip_single)]),
         (''fieldConfig'',
            PDict [(''defaults'',
                      PDict [(''color'', color_mode ''palette-classic''),
                             (''custom'', line_custom)]),
                   (''overrides'', PList [])])]
      else if panel_type = PStr ''stat'' then
        [(''type'', PStr ''stat''),
         (''options'',
            PDict [(''colorMode'', PStr ''value''), (''graphMode'', PStr ''area''),
                   (''justifyMode'', PStr ''auto''), (''textMode'', PStr ''auto''),
                   (''reduceOptions'', reduce_options False)]),
         (''fieldConfig'',
            PDict [(''defaults'', PDict [(''color'', color_mode ''thresholds'')]),
                   (''overrides'', PList [])])]
      else if panel_type = PStr ''table'' then
        [(''type'', PStr ''table''),
         (''options'', PDict [(''showHeader'', PBool True), (''sortBy'', PList [])]),
         (''fieldConfig'', PDict [(''defaults'', PDict []), (''overrides'', PList [])])]
      else if panel_type = PStr ''pie'' then
        [(''type'', PStr ''piechart''),
         (''options'',
            PDict [(''legend'', legend ''right''), (''pieType'', PStr ''pie''),
                   (''reduceOptions'', reduce_options True)]),
         (''fieldConfig'',
            PDict [(''defaults'', PDict [(''color'', color_mode ''palette-classic'')]),
                   (''overrides'', PList [])])]
      else if panel_type = PStr ''gauge'' then
        [(''type'', PStr ''gauge''),
         (''options'',
            PDict [(''reduceOptions'', reduce_options False),
                   (''showThresholdLabels'', PBool False),
                   (''showThresholdMarkers'', PBool True)]),
         (''fieldConfig'',
            PDict [(''defaults'',
                      PDict [(''color'', color_mode ''thresholds''),
                             (''thresholds'',
                                threshold_steps [(''green'', PNone), (''yellow'', PInt 50),
                                                 (''red'', PInt 80)])]),
                   (''overrides'', PList [])])]
      else if panel_type = PStr ''heatmap'' then
        [(''type'', PStr ''heatmap''),
         (''options'',
            PDict [(''calculate'', PBool False), (''cellGap'', PInt 1),
                   (''color'',
                      PDict [(''mode'', PStr ''scheme''), (''scheme'', PStr ''Oranges''),
                             (''steps'', PInt 64)]),
                   (''legend'', PDict [(''show'', PBool True)]),
                   (''tooltip'', PDict [(''show'', PBool True), (''yHistogram'', PBool False)]),
                   (''yAxis'', PDict [(''unit'', PStr ''short'')])]),
         (''fieldConfig'',
            PDict [(''defaults'',
                      PDict [(''custom'',
                                PDict [(''hideFrom'',
                                          PDict [(''legend'', PBool False),
                                                 (''tooltip'', PBool False),
                                                 (''viz'', PBool False)])])]),
                   (''overrides'', PList [])])]
      else if panel_type = PStr ''histogram'' then
        [(''type'', PStr ''histogram''),
         (''options'',
            PDict [(''bucketCount'', PInt 30), (''bucketSize'', PNone),
                   (''combine'', PBool False), (''legend'', legend ''bottom''),
                   (''tooltip'', tooltip_single)]),
         (''fieldConfig'',
            PDict [(''defaults'',
                      PDict [(''color'', color_mode ''palette-classic''),
                             (''custom'',
                                PDict [(''fillOpacity'', PInt 80), (''lineWidth'', PInt 1)])]),
                   (''overrides'', PList [])])]
      else if panel_type = PStr ''state_timeline'' then
        [(''type'', PStr ''state-timeline''),
         (''options'',
            PDict [(''alignValue'', PStr ''left''), (''legend'', legend ''bottom''),
                   (''mergeValues'', PBool True), (''rowHeight'', PFloat ''0.9''),
                   (''showValue'', PStr ''auto''), (''tooltip'', tooltip_single)]),
         (''fieldConfig'',
            PDict [(''defaults'',
                      PDict [(''color'', color_mode ''palette-classic''),
                             (''custom'',
                                PDict [(''fillOpacity'', PInt 70), (''lineWidth'', PInt 0)])]),
                   (''overrides'', PList [])])]
      else if panel_type = PStr ''status_history'' then
        [(''type'', PStr ''status-history''),
         (''options'',
            PDict [(''colWidth'', PFloat ''0.9''), (''legend'', legend ''bottom''),
                   (''rowHeight'', PFloat ''0.9''), (''showValue'', PStr ''auto''),
                   (''tooltip'', tooltip_single)]),
         (''fieldConfig'',
            PDict [(''defaults'',
                      PDict [(''color'', color_mode ''thresholds''),
                             (''custom'', PDict [(''fillOpacity'', PInt 70)]),
                             (''thresholds'',
                                threshold_steps [(''green'', PNone), (''red'', PInt 1)])]),
                   (''overrides'', PList [])])]
      else if panel_type = PStr ''candlestick'' then
        [(''type'', PStr ''candlestick''),
         (''options'',
            PDict [(''colors'',
                      PDict [(''down'', PStr ''red''), (''flat'', PStr ''gray''),
                             (''up'', PStr ''green'')]),
                   (''includeAllFields'', PBool False), (''legend'', legend ''bottom'')]),
         (''fieldConfig'',
            PDict [(''defaults'',
                      PDict [(''color'', color_mode ''palette-classic''),
                             (''custom'',
                                PDict [(''axisCenteredZero'', PBool False),
                                       (''axisPlacement'', PStr ''auto'')])]),
                   (''overrides'', PList [])])]
      else if panel_type = PStr ''trend'' then
        [(''type'', PStr ''trend''),
         (''options'', PDict [(''legend'', legend ''bottom''), (''tooltip'', tooltip_single)]),
         (''fieldConfig'',
            PDict [(''defaults'',
                      PDict [(''color'', color_mode ''palette-classic''),
                             (''custom'', line_custom)]),
                   (''overrides'', PList [])])]
      else if panel_type = PStr ''xy'' then
        [(''type'', PStr ''xychart''),
         (''options'',
            PDict [(''dims'', PDict [(''x'', PNone), (''y'', PNone)]),
                   (''legend'', legend ''bottom''),
                   (''series'',
                      PList [PDict [(''pointSize'', PDict [(''fixed'', PInt 5)]),
                                    (''showPoints'', PStr ''always'')]]),
                   (''tooltip'', tooltip_single)]),
         (''fieldConfig'',
            PDict [(''defaults'', PDict [(''color'', color_mode ''palette-classic'')]),
                   (''overrides'', PList [])])]
      else if panel_type = PStr ''bar_gauge'' then
        [(''type'', PStr ''bargauge''),
         (''options'',
            PDict [(''displayMode'', PStr ''gradient''), (''minVizHeight'', PInt 10),
                   (''minVizWidth'', PInt 0), (''orientation'', PStr ''horizontal''),
                   (''reduceOptions'', reduce_options False),
                   (''showUnfilled'', PBool True)]),
         (''fieldConfig'',
            PDict [(''defaults'',
                      PDict [(''color'', color_mode ''thresholds''),
                             (''thresholds'',
                                threshold_steps [(''green'', PNone), (''yellow'', PInt 50),
                                                 (''red'', PInt 80)])]),
                   (''overrides'', PList [])])]
      else
        [(''type'', PStr ''table''),
         (''options'', PDict [(''showHeader'', PBool True)])])"

definition targets :: "pyval \<Rightarrow> pyval" where
  "targets sql =
     PList [PDict [(''queryText'', sql), (''rawQueryText'', sql), (''refId'', PStr ''A''),
                   (''format'', PStr ''table'')]]"

text \<open>
  \<^verbatim>\<open>generate_panel\<close>; \<open>u\<close> is the UUID drawn for the panel identifier and
  \<open>datasource_name\<close> the attribute of the generator.
\<close>

definition generate_panel ::
  "string \<Rightarrow> nat \<Rightarrow> pydict \<Rightarrow> pyval \<Rightarrow> pyval \<Rightarrow> error + pyval" where
  "generate_panel datasource_name u panel_spec sql grid_pos =
     (let panel_type = dict_get panel_spec ''type'' (PStr ''bar'');
          title = dict_get panel_spec ''title'' (PStr ''Panel'');
          base = (\<lambda>q. [(''id'', PInt (generate_panel_id u)),
                       (''title'', title),
                       (''description'', dict_get panel_spec ''description'' (PStr [])),
                       (''gridPos'', grid_pos),
                       (''datasource'',
                          PDict [(''type'', PStr ''frser-sqlite-datasource''),
                                 (''uid'', PStr datasource_name)]),
                       (''targets'', targets q)])
      in if panel_type = PStr ''bar'' then
           (case bar_query panel_spec sql of
              Inl e \<Rightarrow> Inl e
            | Inr (normalized_sql, x_col) \<Rightarrow>
                Inr (PDict (base normalized_sql @
                  [(''type'', PStr ''barchart''),
                   (''options'',
                      PDict ([(''legend'', legend ''bottom''), (''tooltip'', tooltip_single)]
                             @ (if truthy x_col then [(''xField'', x_col)] else []))),
                   (''fieldConfig'',
                      PDict [(''defaults'', PDict [(''color'', color_mode ''palette-classic'')]),
                             (''overrides'', PList [])])])))
         else Inr (PDict (base sql @ panel_block panel_type)))"

text \<open>
  The two dashboard builders. \<open>rng\<close> is the sequence of UUIDs the call draws: the first
  for the dashboard identifier, the next ones for the panels in order.
\<close>

definition grid :: "int \<Rightarrow> int \<Rightarrow> int \<Rightarrow> int \<Rightarrow> pyval" where
  "grid x y w h = PDict [(''x'', PInt x), (''y'', PInt y), (''w'', PInt w), (''h'', PInt h)]"

fun layout_panels ::
  "string \<Rightarrow> (nat \<Rightarrow> nat) \<Rightarrow> nat \<Rightarrow> int \<Rightarrow> pyval list \<Rightarrow> error + pyval list" where
  "layout_panels ds rng i y_pos [] = Inr []"
| "layout_panels ds rng i y_pos (panel_spec # rest) =
     (case panel_spec of
        PDict spec \<Rightarrow>
          (case dict_get spec ''viz'' panel_spec of
             PDict viz \<Rightarrow>
               (let sql = dict_get spec ''sql'' (PStr []);
                    panel_type = dict_get viz ''type'' (PStr ''bar'');
                    full = (panel_type = PStr ''table'' \<or> panel_type = PStr ''line'');
                    col = int (i mod 2);
                    grid_pos = (if full then grid 0 y_pos 24 8 else grid (col * 12) y_pos 12 8);
                    y_next = (if full \<or> col = 1 then y_pos + 8 else y_pos)
                in case generate_panel ds (rng (Suc i)) viz sql grid_pos of
                     Inl e \<Rightarrow> Inl e
                   | Inr panel \<Rightarrow>
                       (case layout_panels ds rng (Suc i) y_next rest of
                          Inl e \<Rightarrow> Inl e
                        | Inr ps \<Rightarrow> Inr (panel # ps)))
           | _ \<Rightarrow> Inl AttributeError)
      | _ \<Rightarrow> Inl AttributeError)"

definition dashboard_doc ::
  "string \<Rightarrow> pyval \<Rightarrow> string list \<Rightarrow> string \<Rightarrow> string \<Rightarrow> pyval list \<Rightarrow> pyval" where
  "dashboard_doc uid title tags refresh time_from ps =
     PDict [(''uid'', PStr uid), (''title'', title), (''tags'', PList (map PStr tags)),
            (''timezone'', PStr ''browser''), (''schemaVersion'', PInt 38),
            (''version'', PInt 1), (''refresh'', PStr refresh),
            (''time'', PDict [(''from'', PStr time_from), (''to'', PStr ''now'')]),
            (''panels'', PList ps)]"

definition generate_multi_panel_dashboard ::
  "string \<Rightarrow> (nat \<Rightarrow> nat) \<Rightarrow> pyval list \<Rightarrow> pyval \<Rightarrow> error + pyval" where
  "generate_multi_panel_dashboard ds rng panels title =
     (case layout_panels ds rng 0 0 panels of
        Inl e \<Rightarrow> Inl e
      | Inr ps \<Rightarrow>
          Inr (dashboard_doc (generate_uid (rng 0)) title
                 [''auto-generated'', ''analytics'', ''overview''] ''30s'' ''now-24h'' ps))"

text \<open>
  \<^verbatim>\<open>question[:50]\<close> on whatever the plan holds under \<^verbatim>\<open>q\<close>: a string or a list is cut,
  any other value raises (a dictionary raises \<^verbatim>\<open>TypeError\<close> up to Python 3.11 and
  \<^verbatim>\<open>KeyError\<close> from 3.12 on, where a slice can be hashed; the model has the former).
\<close>

definition slice50 :: "pyval \<Rightarrow> error + pyval" where
  "slice50 v =
     (case v of
        PStr s \<Rightarrow> Inr (PStr (take 50 s))
      | PList xs \<Rightarrow> Inr (PList (take 50 xs))
      | _ \<Rightarrow> Inl TypeError)"

fun enrich_panels :: "pyval \<Rightarrow> pyval list \<Rightarrow> error + pyval list" where
  "enrich_panels sql [] = Inr []"
| "enrich_panels sql (p # ps) =
     (case p of
        PDict d \<Rightarrow>
          (let p_copy = (if \<not> truthy (dict_get d ''sql'' PNone) then dict_set ''sql'' sql d
                         else d)
           in case enrich_panels sql ps of
                Inl e \<Rightarrow> Inl e
              | Inr qs \<Rightarrow> Inr (PDict p_copy # qs))
      | _ \<Rightarrow> Inl AttributeError)"

definition generate_dashboard ::
  "string \<Rightarrow> (nat \<Rightarrow> nat) \<Rightarrow> pydict \<Rightarrow> pyval \<Rightarrow> error + pyval" where
  "generate_dashboard ds rng plan title_arg =
     (let question = dict_get plan ''q''
                       (dict_get plan ''question'' (PStr ''Analytics Dashboard''));
          sql = dict_get plan ''sql'' (PStr []);
          viz = dict_get plan ''viz'' (PDict []);
          title_res =
            (if truthy title_arg then Inr title_arg
             else case slice50 question of
                    Inl e \<Rightarrow> Inl e
                  | Inr q50 \<Rightarrow>
                      (case viz of
                         PDict d \<Rightarrow> Inr (dict_get d ''title'' q50)
                       | _ \<Rightarrow> Inr q50))
      in case title_res of
           Inl e \<Rightarrow> Inl e
         | Inr title \<Rightarrow>
             (case viz of
                PList ps \<Rightarrow>
                  (case enrich_panels sql ps of
                     Inl e \<Rightarrow> Inl e
                   | Inr enriched \<Rightarrow> generate_multi_panel_dashboard ds rng enriched title)
              | _ \<Rightarrow>
                  (if truthy viz \<and> truthy sql then
                     (case viz of
                        PDict d \<Rightarrow>
                          (case generate_panel ds (rng 1) d sql (grid 0 0 24 12) of
                             Inl e \<Rightarrow> Inl e
                           | Inr panel \<Rightarrow>
                               Inr (dashboard_doc (generate_uid (rng 0)) title
                                      [''auto-generated'', ''analytics''] ''5s'' ''now-1h''
                                      [panel]))
                      | _ \<Rightarrow> Inl AttributeError)
                   else Inr (dashboard_doc (generate_uid (rng 0)) title
                               [''auto-generated'', ''analytics''] ''5s'' ''now-1h'' []))))"

text \<open>
  Two grid positions overlap when their rectangles share a cell: the \<open>x\<close> ranges meet
  and the \<open>y\<close> ranges meet.
\<close>

definition grid_of :: "pyval \<Rightarrow> (int \<times> int \<times> int \<times> int) option" where
  "grid_of panel =
     (case panel of
        PDict d \<Rightarrow>
          (case map_of d ''gridPos'' of
             Some (PDict g) \<Rightarrow>
               (case (map_of g ''x'', map_of g ''y'', map_of g ''w'', map_of g ''h'') of
                  (Some (PInt x), Some (PInt y), Some (PInt w), Some (PInt h)) \<Rightarrow>
                    Some (x, y, w, h)
                | _ \<Rightarrow> None)
           | _ \<Rightarrow> None)
      | _ \<Rightarrow> None)"

definition overlap :: "int \<times> int \<times> int \<times> int \<Rightarrow> int \<times> int \<times> int \<times> int \<Rightarrow> bool" where
  "overlap a b =
     (case (a, b) of
        ((x1, y1, w1, h1), (x2, y2, w2, h2)) \<Rightarrow>
          x1 < x2 + w2 \<and> x2 < x1 + w1 \<and> y1 < y2 + h2 \<and> y2 < y1 + h1)"

text \<open>The panels of a generated dashboard; none when the generation raised.\<close>

definition panels_of :: "error + pyval \<Rightarrow> pyval list" where
  "panels_of r =
     (case r of
        Inr (PDict d) \<Rightarrow> (case map_of d ''panels'' of Some (PList ps) \<Rightarrow> ps | _ \<Rightarrow> [])
      | _ \<Rightarrow> [])"

text \<open>
  A document with its random identifiers taken out: a panel without its \<^verbatim>\<open>id\<close>, a dashboard
  without its \<^verbatim>\<open>uid\<close> and with each of its panels without its \<^verbatim>\<open>id\<close>.
\<close>

definition without_id :: "pyval \<Rightarrow> pyval" where
  "without_id panel = (case panel of PDict d \<Rightarrow> PDict (dict_del ''id'' d) | _ \<Rightarrow> panel)"

definition scrub_panel :: "error + pyval \<Rightarrow> error + pyval" where
  "scrub_panel r = (case r of Inr panel \<Rightarrow> Inr (without_id panel) | Inl e \<Rightarrow> Inl e)"

definition scrub_dashboard :: "error + pyval \<Rightarrow> error + pyval" where
  "scrub_dashboard r =
     (case r of
        Inr (PDict d) \<Rightarrow>
          Inr (PDict (map (\<lambda>(k, v). (k, if k = ''panels''
                                           then (case v of PList ps \<Rightarrow> PList (map without_id ps)
                                                 | _ \<Rightarrow> v)
                                           else v))
                          (dict_del ''uid'' d)))
      | _ \<Rightarrow> r)"

section \<open>The notation serializer\<close>

text \<open>
  \<^verbatim>\<open>str(value)\<close> as the f-strings of the serializer apply it: the decimal digits of an
  integer, the text of a float, and for the other values what \<^verbatim>\<open>repr\<close> prints, with the
  quoting rules of strings (single quotes unless the text holds a single quote and no
  double quote; the quote, the backslash and the control characters escaped).
\<close>

function show_nat :: "nat \<Rightarrow> string" where
  "show_nat n = (if n < 10 then [''0123456789'' ! n]
                 else show_nat (n div 10) @ [''0123456789'' ! (n mod 10)])"
  by pat_completeness auto
termination
  by (relation "measure id") auto

definition show_int :: "int \<Rightarrow> string" where
  "show_int i = (if i < 0 then CHR ''-'' # show_nat (nat (- i)) else show_nat (nat i))"

definition repr_char :: "char \<Rightarrow> char \<Rightarrow> string" where
  "repr_char q c =
     (if c = q \<or> c = CHR 0x5C then [CHR 0x5C, c]
      else if c = CHR 0x09 then [CHR 0x5C, CHR ''t'']
      else if c = CHR 0x0A then [CHR 0x5C, CHR ''n'']
      else if c = CHR 0x0D then [CHR 0x5C, CHR ''r'']
      else if ord c < 32 \<or> ord c = 127
      then [CHR 0x5C, CHR ''x'', ''0123456789abcdef'' ! (ord c div 16),
            ''0123456789abcdef'' ! (ord c mod 16)]
      else [c])"

definition repr_str :: "string \<Rightarrow> string" where
  "repr_str s =
     (let q = (if CHR 0x27 \<in> set s \<and> CHR 0x22 \<notin> set s then CHR 0x22 else CHR 0x27)
      in q # concat (map (repr_char q) s) @ [q])"

fun py_repr :: "pyval \<Rightarrow> string" where
  "py_repr PNone = ''None''"
| "py_repr (PBool b) = (if b then ''True'' else ''False'')"
| "py_repr (PInt i) = show_int i"
| "py_repr (PFloat r) = r"
| "py_repr (PStr s) = repr_str s"
| "py_repr (PList xs) = ''['' @ join '', '' (map py_repr xs) @ '']''"
| "py_repr (PDict d) =
     ''{'' @ join '', '' (map (\<lambda>kv. repr_str (fst kv) @ '': '' @ py_repr (snd kv)) d) @ ''}''"

definition py_str :: "pyval \<Rightarrow> string" where
  "py_str v = (case v of PStr s \<Rightarrow> s | _ \<Rightarrow> py_repr v)"

text \<open>The tests and the escaping of the string branch of \<^verbatim>\<open>_serialize_value\<close>.\<close>

definition needs_quotes :: "string \<Rightarrow> bool" where
  "needs_quotes v =
     (CHR '' '' \<in> set v \<or> CHR 0x0A \<in> set v \<or> CHR '':'' \<in> set v \<or> CHR ''{'' \<in> set v
      \<or> CHR ''}'' \<in> set v \<or> CHR ''['' \<in> set v \<or> CHR '']'' \<in> set v \<or> CHR 0x22 \<in> set v
      \<or> v \<in> {''true'', ''false'', ''null''} \<or> v = [])"

definition py_replace_char :: "char \<Rightarrow> string \<Rightarrow> string \<Rightarrow> string" where
  "py_replace_char c new s = concat (map (\<lambda>x. if x = c then new else [x]) s)"

definition escape :: "string \<Rightarrow> string" where
  "escape v =
     py_replace_char (CHR 0x22) [CHR 0x5C, CHR 0x22]
       (py_replace_char (CHR 0x5C) [CHR 0x5C, CHR 0x5C] v)"

definition spaces :: "int \<Rightarrow> string" where
  "spaces n = replicate (nat n) (CHR '' '')"

definition is_complex :: "pyval \<Rightarrow> bool" where
  "is_complex v = (case v of PDict _ \<Rightarrow> True | PList _ \<Rightarrow> True | _ \<Rightarrow> False)"

text \<open>
  The text of an object: \<open>head\<close> is empty or the tag \<^verbatim>\<open>@type\<close>, \<open>content\<close> what
  \<^verbatim>\<open>_serialize_object\<close> returned.
\<close>

definition wrap_object :: "string \<Rightarrow> string \<Rightarrow> int \<Rightarrow> bool \<Rightarrow> string" where
  "wrap_object head content indent compact =
     (if compact then head @ ''{'' @ content @ ''}''
      else head @ ''{'' @ [CHR 0x0A] @ content @ [CHR 0x0A] @ spaces indent @ ''}'')"

text \<open>
  \<^verbatim>\<open>_serialize_value\<close>, \<^verbatim>\<open>_serialize_object\<close> and \<^verbatim>\<open>_serialize_array\<close>. They read their
  argument and build a fresh text; the dictionary branch works on a filtered copy
  (\<^verbatim>\<open>clean_data\<close>), so no nested value is changed.
\<close>

function serialize_value :: "pyval \<Rightarrow> int \<Rightarrow> bool \<Rightarrow> string"
  and serialize_object :: "pydict \<Rightarrow> int \<Rightarrow> bool \<Rightarrow> string"
  and serialize_array :: "pyval list \<Rightarrow> int \<Rightarrow> bool \<Rightarrow> string" where
  "serialize_value PNone indent compact = ''null''"
| "serialize_value (PBool b) indent compact = (if b then ''true'' else ''false'')"
| "serialize_value (PInt i) indent compact = show_int i"
| "serialize_value (PFloat r) indent compact = r"
| "serialize_value (PStr v) indent compact =
     (if needs_quotes v then [CHR 0x22] @ escape v @ [CHR 0x22] else v)"
| "serialize_value (PList arr) indent compact = serialize_array arr indent compact"
| "serialize_value (PDict v) indent compact =
     (let type_name = dict_get v ''_type'' PNone;
          clean_data = dict_del ''_type'' v;
          content = serialize_object clean_data indent compact
      in if truthy type_name
         then wrap_object (''@'' @ py_str type_name) content indent compact
         else wrap_object [] content indent compact)"
| "serialize_object data indent compact =
     (if data = [] then []
      else
        (let inner_indent = indent + 2;
             parts = map (\<lambda>kv. let serialized = serialize_value (snd kv) inner_indent compact
                               in if compact then fst kv @ '':'' @ serialized
                                  else spaces inner_indent @ fst kv @ '':'' @ serialized)
                         (filter (\<lambda>kv. snd kv \<noteq> PNone) data)
         in if compact then join '' '' parts else join [CHR 0x0A] parts))"
| "serialize_array arr indent compact =
     (if arr = [] then ''[]''
      else
        (let has_complex = list_ex is_complex arr
         in if compact \<or> \<not> has_complex
            then ''['' @ join '','' (map (\<lambda>item. serialize_value item indent True) arr) @ '']''
            else
              (let inner_indent = indent + 2;
                   items = map (\<lambda>item. spaces inner_indent
                                        @ serialize_value item inner_indent compact) arr
               in ''['' @ [CHR 0x0A] @ join ('','' @ [CHR 0x0A]) items @ [CHR 0x0A]
                  @ spaces indent @ '']'')))"
  by pat_completeness auto
termination
proof (relation "measure (\<lambda>x. case x of
                            Inl (v, _, _) \<Rightarrow> 2 * size v
                          | Inr (Inl (d, _, _)) \<Rightarrow> 2 * size (PDict d) - 1
                          | Inr (Inr (arr, _, _)) \<Rightarrow> 2 * size (PList arr) - 1)",
       goal_cases)
  case 1
  show ?case by simp
next
  case (2 arr indent compact)
  show ?case by simp
next
  case (3 v indent compact type_name clean_data)
  have "size (PDict (filter P d)) \<le> size (PDict d)" for P and d :: pydict
    by (induction d) auto
  from this [of "\<lambda>kv. fst kv \<noteq> ''_type''" v] show ?case
    using 3 by (simp add: dict_del_def)
next
  case (4 data indent compact inner_indent kv)
  have "kv \<in> set d \<Longrightarrow> size (snd kv) < size (PDict d)" for d :: pydict
    by (induction d) auto
  then show ?case
    using 4 by fastforce
next
  case (5 arr indent compact has_complex item)
  have "item \<in> set xs \<Longrightarrow> size item < size (PList xs)" for xs
    by (induction xs) auto
  then show ?case
    using 5 by fastforce
next
  case (6 arr indent compact has_complex inner_indent item)
  have "item \<in> set xs \<Longrightarrow> size item < size (PList xs)" for xs
    by (induction xs) auto
  then show ?case
    using 6 by fastforce
qed


section \<open>The notation parser\<close>

text \<open>
  \<^verbatim>\<open>int(raw)\<close> and \<^verbatim>\<open>float(raw)\<close> on a token. Both accept an optional sign and groups of
  digits joined by single underscores; \<^verbatim>\<open>float\<close> also accepts a decimal point, an exponent
  and the names \<^verbatim>\<open>inf\<close>, \<^verbatim>\<open>infinity\<close> and \<^verbatim>\<open>nan\<close> in any casing. \<^verbatim>\<open>int\<close> refuses a
  text of more than 4300 digits (the default limit of \<^verbatim>\<open>sys.set_int_max_str_digits\<close>).
  The float a token denotes is not computed: \<open>fs\<close>, a parameter of the parser, gives the
  text Python prints for it.
\<close>

fun digitpart_from :: "bool \<Rightarrow> string \<Rightarrow> bool" where
  "digitpart_from prev [] = prev"
| "digitpart_from prev (c # cs) =
     (if is_digit c then digitpart_from True cs
      else c = CHR ''_'' \<and> prev \<and> digitpart_from False cs)"

definition digitpart :: "string \<Rightarrow> bool" where
  "digitpart s = digitpart_from False s"

definition digits_value :: "string \<Rightarrow> nat" where
  "digits_value s = foldl (\<lambda>a c. if is_digit c then 10 * a + (ord c - 48) else a) 0 s"

definition strip_sign :: "string \<Rightarrow> bool \<times> string" where
  "strip_sign s =
     (case s of
        [] \<Rightarrow> (False, [])
      | c # cs \<Rightarrow> if c = CHR ''-'' then (True, cs)
                  else if c = CHR ''+'' then (False, cs)
                  else (False, s))"

definition py_int :: "string \<Rightarrow> int option" where
  "py_int raw =
     (case strip_sign raw of
        (neg, body) \<Rightarrow>
          if digitpart body \<and> length (filter is_digit body) \<le> 4300
          then Some (if neg then - int (digits_value body) else int (digits_value body))
          else None)"

definition mantissa_syntax :: "string \<Rightarrow> bool" where
  "mantissa_syntax m =
     (let ip = takeWhile (\<lambda>c. c \<noteq> CHR ''.'') m;
          rest = dropWhile (\<lambda>c. c \<noteq> CHR ''.'') m
      in if rest = [] then digitpart ip
         else (ip = [] \<or> digitpart ip) \<and> (tl rest = [] \<or> digitpart (tl rest))
              \<and> (ip \<noteq> [] \<or> tl rest \<noteq> []))"

definition decimal_syntax :: "string \<Rightarrow> bool" where
  "decimal_syntax body =
     (let m = takeWhile (\<lambda>c. c \<noteq> CHR ''e'' \<and> c \<noteq> CHR ''E'') body;
          rest = dropWhile (\<lambda>c. c \<noteq> CHR ''e'' \<and> c \<noteq> CHR ''E'') body
      in mantissa_syntax m \<and> (rest = [] \<or> digitpart (snd (strip_sign (tl rest)))))"

definition float_syntax :: "string \<Rightarrow> bool" where
  "float_syntax raw =
     (case strip_sign raw of
        (neg, body) \<Rightarrow>
          lower body \<in> {''inf'', ''infinity'', ''nan''} \<or> decimal_syntax body)"

text \<open>\<^verbatim>\<open>_parse_value\<close>: the coercion of a token.\<close>

definition parse_value :: "(string \<Rightarrow> string) \<Rightarrow> string \<Rightarrow> pyval" where
  "parse_value fs raw0 =
     (let raw = strip raw0
      in if raw = ''true'' then PBool True
         else if raw = ''false'' then PBool False
         else if raw = ''null'' \<or> raw = ''none'' then PNone
         else case py_int raw of
                Some n \<Rightarrow> PInt n
              | None \<Rightarrow> if float_syntax raw then PFloat (fs raw) else PStr raw)"

text \<open>
  The loops \<^verbatim>\<open>while i < len(content) and content[i] in ...: i += 1\<close>: the index after the
  run of such characters that starts at \<open>i\<close>.
\<close>

definition skip_while :: "(char \<Rightarrow> bool) \<Rightarrow> string \<Rightarrow> nat \<Rightarrow> nat" where
  "skip_while p s i = i + length (takeWhile p (drop i s))"

definition skip_blank :: "string \<Rightarrow> nat \<Rightarrow> nat" where
  "skip_blank s i = skip_while is_blank s i"

definition skip_sep :: "string \<Rightarrow> nat \<Rightarrow> nat" where
  "skip_sep s i = skip_while (\<lambda>c. is_blank c \<or> c = CHR '','') s i"

text \<open>
  \<^verbatim>\<open>_find_string_end\<close>, \<^verbatim>\<open>_find_matching_brace\<close> and \<^verbatim>\<open>_find_matching_bracket\<close>. The two
  matching functions differ in their pair of delimiters and in the message only;
  \<open>string_char\<close> is \<open>None\<close> outside a quoted span and holds the quote inside one.
\<close>

function string_end_from :: "string \<Rightarrow> char \<Rightarrow> nat \<Rightarrow> nat option" where
  "string_end_from text quote i =
     (if i < length text then
        (if text ! i = CHR 0x5C \<and> i + 1 < length text then string_end_from text quote (i + 2)
         else if text ! i = quote then Some i
         else string_end_from text quote (i + 1))
      else None)"
  by pat_completeness auto
termination
  by (relation "measure (\<lambda>(text, quote, i). length text - i)") auto

definition find_string_end :: "string \<Rightarrow> nat \<Rightarrow> char \<Rightarrow> error + nat" where
  "find_string_end text start quote =
     (case string_end_from text quote (start + 1) of
        Some i \<Rightarrow> Inr i
      | None \<Rightarrow> Inl (ToonParseError (UnterminatedString start)))"

function matching_from ::
  "char \<Rightarrow> char \<Rightarrow> string \<Rightarrow> int \<Rightarrow> char option \<Rightarrow> nat \<Rightarrow> nat option" where
  "matching_from opn cls text depth string_char i =
     (if i < length text then
        (let char = text ! i
         in case string_char of
              Some q \<Rightarrow>
                if char = CHR 0x5C \<and> i + 1 < length text
                then matching_from opn cls text depth (Some q) (i + 2)
                else if char = q then matching_from opn cls text depth None (i + 1)
                else matching_from opn cls text depth (Some q) (i + 1)
            | None \<Rightarrow>
                if char = CHR 0x22 \<or> char = CHR 0x27
                then matching_from opn cls text depth (Some char) (i + 1)
                else if char = opn then matching_from opn cls text (depth + 1) None (i + 1)
                else if char = cls
                then (if depth - 1 = 0 then Some i
                      else matching_from opn cls text (depth - 1) None (i + 1))
                else matching_from opn cls text depth None (i + 1))
      else None)"
  by pat_completeness auto
termination
  by (relation "measure (\<lambda>(opn, cls, text, depth, string_char, i). length text - i)") auto

definition find_matching_brace :: "string \<Rightarrow> nat \<Rightarrow> error + nat" where
  "find_matching_brace text start =
     (case matching_from (CHR ''{'') (CHR ''}'') text 0 None start of
        Some i \<Rightarrow> Inr i
      | None \<Rightarrow> Inl (ToonParseError (UnmatchedBrace start)))"

definition find_matching_bracket :: "string \<Rightarrow> nat \<Rightarrow> error + nat" where
  "find_matching_bracket text start =
     (case matching_from (CHR ''['') (CHR '']'') text 0 None start of
        Some i \<Rightarrow> Inr i
      | None \<Rightarrow> Inl (ToonParseError (UnmatchedBracket start)))"

text \<open>
  The patterns of the parser, matched at the start of a text: \<^verbatim>\<open>(\w+)\s*:\<close> gives the key
  and the length of the match, \<^verbatim>\<open>@(\w+)\s*\{\<close> the type name and the length of the match,
  \<^verbatim>\<open>([^\s,\}\]]+)\<close> the token.
\<close>

definition key_match :: "string \<Rightarrow> (string \<times> nat) option" where
  "key_match s =
     (case first (groups_match [Plus is_word,
                                Seq (Star is_space) (Cls (\<lambda>c. c = CHR '':''))] s) of
        Some ([key, sep], rest) \<Rightarrow> Some (key, length key + length sep)
      | _ \<Rightarrow> None)"

definition type_match :: "string \<Rightarrow> (string \<times> nat) option" where
  "type_match s =
     (case first (groups_match [Cls (\<lambda>c. c = CHR ''@''), Plus is_word,
                                Seq (Star is_space) (Cls (\<lambda>c. c = CHR ''{''))] s) of
        Some ([at, name, sep], rest) \<Rightarrow> Some (name, length at + length name + length sep)
      | _ \<Rightarrow> None)"

definition value_token :: "string \<Rightarrow> string option" where
  "value_token s =
     (case first (groups_match
                    [Plus (\<lambda>c. \<not> is_space c \<and> c \<noteq> CHR '','' \<and> c \<noteq> CHR ''}'' \<and> c \<noteq> CHR '']'')]
                    s) of
        Some ([raw], rest) \<Rightarrow> Some raw
      | _ \<Rightarrow> None)"

text \<open>
  \<^verbatim>\<open>re.match(r"@(\w+)\s*\{(.+)\}\s*$", text, re.DOTALL)\<close>: the first way of matching, in
  backtracking order, that ends at the end of the text or before a final line feed.
\<close>

definition typed_document :: "string \<Rightarrow> (string \<times> string) option" where
  "typed_document text =
     (case find (\<lambda>m. snd m = [] \<or> snd m = [CHR 0x0A])
             (groups_match [Cls (\<lambda>c. c = CHR ''@''), Plus is_word,
                            Seq (Star is_space) (Cls (\<lambda>c. c = CHR ''{'')),
                            Plus (\<lambda>c. True), Cls (\<lambda>c. c = CHR ''}''), Star is_space] text) of
        Some ([at, name, sep, content, close, trail], rest) \<Rightarrow> Some (name, content)
      | _ \<Rightarrow> None)"

text \<open>
  \<^verbatim>\<open>s.replace(old, new)\<close> for a pattern \<open>old\<close> of two characters \<open>a\<close>, \<open>b\<close>, and the
  unescaping of a quoted string: \<^verbatim>\<open>.replace('\\"', '"').replace("\\\\", "\\")\<close>.
\<close>

fun replace_pair :: "char \<Rightarrow> char \<Rightarrow> string \<Rightarrow> string \<Rightarrow> string" where
  "replace_pair a b new (x # y # zs) =
     (if x = a \<and> y = b then new @ replace_pair a b new zs
      else x # replace_pair a b new (y # zs))"
| "replace_pair a b new s = s"

definition unescape :: "char \<Rightarrow> string \<Rightarrow> string" where
  "unescape quote s =
     replace_pair (CHR 0x5C) (CHR 0x5C) [CHR 0x5C] (replace_pair (CHR 0x5C) quote [quote] s)"

text \<open>
  \<^verbatim>\<open>_parse_value_at\<close>, \<^verbatim>\<open>_parse_object_content\<close> and \<^verbatim>\<open>_parse_array\<close>, with the \<^verbatim>\<open>while\<close>
  loop of the last two as a function of the index \<open>i\<close> and of the result built so far.
\<close>

function parse_value_at :: "(string \<Rightarrow> string) \<Rightarrow> string \<Rightarrow> nat \<Rightarrow> error + (pyval \<times> nat)"
  and parse_object_content :: "(string \<Rightarrow> string) \<Rightarrow> string \<Rightarrow> error + pydict"
  and parse_object_loop :: "(string \<Rightarrow> string) \<Rightarrow> string \<Rightarrow> nat \<Rightarrow> pydict \<Rightarrow> error + pydict"
  and parse_array :: "(string \<Rightarrow> string) \<Rightarrow> string \<Rightarrow> error + pyval list"
  and parse_array_loop ::
    "(string \<Rightarrow> string) \<Rightarrow> string \<Rightarrow> nat \<Rightarrow> pyval list \<Rightarrow> error + pyval list" where
  "parse_value_at fs text start =
     (let i = skip_blank text start
      in if i \<ge> length text then Inr (PNone, i - start)
         else
           (let char = text ! i
            in case (if char = CHR ''@'' then type_match (drop i text) else None) of
                 Some (type_name, e) \<Rightarrow>
                   (let brace_start = i + e - 1
                    in case find_matching_brace text brace_start of
                         Inl err \<Rightarrow> Inl err
                       | Inr brace_end \<Rightarrow>
                           (case parse_object_content fs
                                   (slice text (brace_start + 1) brace_end) of
                              Inl err \<Rightarrow> Inl err
                            | Inr obj \<Rightarrow>
                                Inr (PDict (dict_set ''_type'' (PStr type_name) obj),
                                     brace_end + 1 - start)))
               | None \<Rightarrow>
                   if char = CHR ''{'' then
                     (case find_matching_brace text i of
                        Inl err \<Rightarrow> Inl err
                      | Inr brace_end \<Rightarrow>
                          (case parse_object_content fs (slice text (i + 1) brace_end) of
                             Inl err \<Rightarrow> Inl err
                           | Inr obj \<Rightarrow> Inr (PDict obj, brace_end + 1 - start)))
                   else if char = CHR ''['' then
                     (case find_matching_bracket text i of
                        Inl err \<Rightarrow> Inl err
                      | Inr bracket_end \<Rightarrow>
                          (case parse_array fs (slice text (i + 1) bracket_end) of
                             Inl err \<Rightarrow> Inl err
                           | Inr arr \<Rightarrow> Inr (PList arr, bracket_end + 1 - start)))
                   else if char = CHR 0x22 then
                     (case find_string_end text i (CHR 0x22) of
                        Inl err \<Rightarrow> Inl err
                      | Inr e \<Rightarrow>
                          Inr (PStr (unescape (CHR 0x22) (slice text (i + 1) e)), e + 1 - start))
                   else if char = CHR 0x27 then
                     (case find_string_end text i (CHR 0x27) of
                        Inl err \<Rightarrow> Inl err
                      | Inr e \<Rightarrow>
                          Inr (PStr (unescape (CHR 0x27) (slice text (i + 1) e)), e + 1 - start))
                   else
                     (case value_token (drop i text) of
                        Some raw \<Rightarrow> Inr (parse_value fs raw, length raw)
                      | None \<Rightarrow> Inr (PNone, 0))))"
| "parse_object_content fs content = parse_object_loop fs (strip content) 0 []"
| "parse_object_loop fs content i result =
     (if i < length content then
        (let i1 = skip_blank content i
         in if i1 \<ge> length content then Inr result
            else
              (case key_match (drop i1 content) of
                 None \<Rightarrow> parse_object_loop fs content (i1 + 1) result
               | Some (key, e) \<Rightarrow>
                   (let i2 = skip_blank content (i1 + e)
                    in case parse_value_at fs content i2 of
                         Inl err \<Rightarrow> Inl err
                       | Inr (v, consumed) \<Rightarrow>
                           parse_object_loop fs content (skip_sep content (i2 + consumed))
                             (dict_set key v result))))
      else Inr result)"
| "parse_array fs content =
     (if strip content = [] then Inr [] else parse_array_loop fs (strip content) 0 [])"
| "parse_array_loop fs content i result =
     (if i < length content then
        (let i1 = skip_blank content i
         in if i1 \<ge> length content then Inr result
            else
              (case parse_value_at fs content i1 of
                 Inl err \<Rightarrow> Inl err
               | Inr (v, consumed) \<Rightarrow>
                   if consumed > 0
                   then parse_array_loop fs content (skip_sep content (i1 + consumed))
                          (result @ [v])
                   else parse_array_loop fs content (skip_sep content (i1 + 1)) result))
      else Inr result)"
  by pat_completeness auto
termination
proof (relation "inv_image (less_than <*lex*> less_than)
         (\<lambda>x. case x of
                 Inl (Inl (fs, text, start)) \<Rightarrow> (length text, 0)
               | Inl (Inr (fs, content)) \<Rightarrow> (length content, length content + 3)
               | Inr (Inl (fs, content, i, result)) \<Rightarrow>
                   (length content, length content - i + 1)
               | Inr (Inr (Inl (fs, content))) \<Rightarrow> (length content, length content + 3)
               | Inr (Inr (Inr (fs, content, i, result))) \<Rightarrow>
                   (length content, length content - i + 1))",
       goal_cases)
  case 1
  show ?case by (intro wf_inv_image wf_lex_prod wf_less_than)
next
  case 2
  then show ?case by (simp add: slice_def)
next
  case 3
  then show ?case by (simp add: slice_def)
next
  case 4
  then show ?case by (simp add: slice_def)
next
  case (5 fs content)
  have "length (strip content) \<le> length content"
    using length_dropWhile_le [of is_space "rev (dropWhile is_space content)"]
          length_dropWhile_le [of is_space content]
    by (simp add: strip_def)
  then show ?case by auto
next
  case 6
  then show ?case by (simp add: skip_blank_def skip_while_def)
next
  case 7
  show ?case by simp
next
  case (8 fs content i result i1 m key e i2 r v consumed)
  have star: "r \<in> set (star_match p s) \<Longrightarrow> length r \<le> length s" for p s r
    by (induction s) (auto split: if_splits)
  let ?gs = "[Plus is_word, Seq (Star is_space) (Cls (\<lambda>c. c = CHR '':''))]"
  let ?s = "drop i1 content"
  from 8 have km: "key_match ?s = Some (key, e)" by simp
  then obtain sep rest where f: "first (groups_match ?gs ?s) = Some ([key, sep], rest)"
    by (auto simp: key_match_def split: option.splits list.splits prod.splits)
  have fm: "first xs = Some x \<Longrightarrow> x \<in> set xs" for x :: "string list \<times> string" and xs
    by (cases xs) (simp_all add: first_def)
  have gm: "(t # ts, u) \<in> set (groups_match (g # gs) s)
            \<Longrightarrow> \<exists>r \<in> set (rx_match g s). t = take (length s - length r) s"
    for t ts u g gs s
    by auto
  from gm [OF fm [OF f]] obtain r where r: "r \<in> set (rx_match (Plus is_word) ?s)"
      "key = take (length ?s - length r) ?s"
    by blast
  from r(1) have "length r < length ?s"
    using star [of r is_word] by (cases ?s) (auto split: if_splits simp: le_imp_less_Suc)
  with r(2) have "0 < length key" by simp
  moreover from km have "length key \<le> e"
    by (auto simp: key_match_def split: option.splits list.splits prod.splits)
  ultimately have "0 < e" by (cases key) auto
  with 8 show ?case
    by (simp add: skip_blank_def skip_sep_def skip_while_def)
next
  case (9 fs content)
  have "length (strip content) \<le> length content"
    using length_dropWhile_le [of is_space "rev (dropWhile is_space content)"]
          length_dropWhile_le [of is_space content]
    by (simp add: strip_def)
  then show ?case by auto
next
  case 10
  show ?case by simp
next
  case 11
  then show ?case
    by (simp add: skip_blank_def skip_sep_def skip_while_def)
next
  case 12
  then show ?case
    by (simp add: skip_blank_def skip_sep_def skip_while_def)
qed

text \<open>\<^verbatim>\<open>parse_toon\<close>.\<close>

definition parse_toon :: "(string \<Rightarrow> string) \<Rightarrow> string \<Rightarrow> error + pyval" where
  "parse_toon fs text0 =
     (let text = strip text0
      in case typed_document text of
           Some (type_name, content) \<Rightarrow>
             (case parse_object_content fs content of
                Inl err \<Rightarrow> Inl err
              | Inr result \<Rightarrow> Inr (PDict (dict_set ''_type'' (PStr type_name) result)))
         | None \<Rightarrow>
             if prefix ''{'' text \<and> suffix ''}'' text
             then (case parse_object_content fs (slice text 1 (length text - 1)) of
                     Inl err \<Rightarrow> Inl err
                   | Inr result \<Rightarrow> Inr (PDict result))
             else Inr (PDict [(''value'', parse_value fs text)]))"

section \<open>Properties of the validator\<close>

lemma first_simps [simp]: "first [] = None" "first (x # xs) = Some x"
  by (simp_all add: first_def)

lemma char_of_ord_shift: "is_lower c \<Longrightarrow> ord (char_of (ord c - 32)) = ord c - 32"
proof -
  assume "is_lower c"
  then have "ord c - 32 < 256" unfolding is_lower_def by arith
  then show ?thesis by (simp add: ord_def)
qed

lemma is_word_upper_char [simp]: "is_word (upper_char c) = is_word c"
proof (cases "is_lower c")
  case True
  then have o: "ord (upper_char c) = ord c - 32"
    by (simp add: upper_char_def char_of_ord_shift)
  have "upper_char c \<noteq> CHR ''_''"
  proof
    assume "upper_char c = CHR ''_''"
    then have "ord (upper_char c) = 95" by (simp add: ord_def)
    with o True show False unfolding is_lower_def by arith
  qed
  moreover have "is_upper (upper_char c)"
    using True o unfolding is_upper_def is_lower_def by arith
  ultimately show ?thesis using True by (simp add: is_word_def)
next
  case False
  then show ?thesis by (simp add: upper_char_def)
qed








text \<open>
  Claim C3: \<^verbatim>\<open>heatmap\<close> is one of the fourteen panel types, and the panel-type check of
  \<^verbatim>\<open>validate_visualization\<close> rejects it, since the check knows six types only.
\<close>

theorem validate_visualization_rejects_heatmap:
  "''heatmap'' \<in> set panel_types
   \<and> validate_visualization [(''type'', PStr ''heatmap''), (''title'', PStr ''Activity'')]
         ''SELECT day, hour, count FROM activity_matrix''
       = Inl (ValidationError (InvalidVisualizationType ''heatmap'' valid_types))"
  by (simp add: panel_types_def validate_visualization_def dict_get_def lower_def
        lower_char_def is_upper_def ord_def valid_types_def)

section \<open>Properties of the generator\<close>

text \<open>
  Claim C4: a bar panel on \<^verbatim>\<open>ship_date\<close> whose query selects \<^verbatim>\<open>carrier, ship_date\<close> and
  groups by both. The greedy group before the column makes the pattern match at the last
  comma that precedes the column: the occurrence in \<^verbatim>\<open>GROUP BY\<close> is wrapped and the one in
  the select list is left as it was.
\<close>

theorem normalize_time_columns_wraps_group_by_occurrence:
  "normalize_time_columns
     ''SELECT carrier, ship_date FROM shipments GROUP BY carrier, ship_date ORDER BY ship_date''
     (Some ''ship_date'')
   = ''SELECT carrier, ship_date FROM shipments GROUP BY carrier, strftime(ship_date, ''
     @ [CHR 0x27] @ ''%Y-%m-%d'' @ [CHR 0x27] @ '') AS ship_date ORDER BY ship_date''
   \<and> (case generate_panel ''DuckDB'' 7 [(''type'', PStr ''bar''), (''x'', PStr ''ship_date'')]
              (PStr ''SELECT carrier, ship_date FROM shipments GROUP BY carrier, ship_date ORDER BY ship_date'')
              (grid 0 0 12 8) of
         Inr (PDict d) \<Rightarrow> map_of d ''targets''
       | _ \<Rightarrow> None)
     = Some (targets (PStr
         (''SELECT carrier, ship_date FROM shipments GROUP BY carrier, strftime(ship_date, ''
          @ [CHR 0x27] @ ''%Y-%m-%d'' @ [CHR 0x27] @ '') AS ship_date ORDER BY ship_date'')))"
proof -
  let ?q = "''SELECT carrier, ship_date FROM shipments GROUP BY carrier, ship_date ORDER BY ship_date''"
  let ?w = "''SELECT carrier, ship_date FROM shipments GROUP BY carrier, strftime(ship_date, ''
     @ [CHR 0x27] @ ''%Y-%m-%d'' @ [CHR 0x27] @ '') AS ship_date ORDER BY ship_date''"
  have n: "normalize_time_columns ?q (Some ''ship_date'') = ?w"
    by code_simp
  have "(case generate_panel ''DuckDB'' 7 [(''type'', PStr ''bar''), (''x'', PStr ''ship_date'')]
              (PStr ?q) (grid 0 0 12 8) of
         Inr (PDict d) \<Rightarrow> map_of d ''targets''
       | _ \<Rightarrow> None)
     = Some (targets (PStr ?w))"
    by code_simp
  with n show ?thesis by simp
qed

text \<open>
  Claim C7: a bar panel followed by a table panel. The bar panel takes the left half of
  row 0 and leaves the row open; the table panel is then placed on the same row at full
  width, over the bar panel.
\<close>

theorem multi_panel_bar_then_table_overlap:
  "map grid_of
     (panels_of (generate_multi_panel_dashboard ''DuckDB'' (\<lambda>n. n)
        [PDict [(''type'', PStr ''bar''), (''sql'', PStr ''SELECT a, b FROM t'')],
         PDict [(''type'', PStr ''table''), (''sql'', PStr ''SELECT a, b FROM t'')]]
        (PStr ''Overview'')))
   = [Some (0, 0, 12, 8), Some (0, 0, 24, 8)]
   \<and> overlap (0, 0, 12, 8) (0, 0, 24, 8)"
proof -
  have "overlap (0, 0, 12, 8) (0, 0, 24, 8)"
    by (simp add: overlap_def)
  moreover have "map grid_of
     (panels_of (generate_multi_panel_dashboard ''DuckDB'' (\<lambda>n. n)
        [PDict [(''type'', PStr ''bar''), (''sql'', PStr ''SELECT a, b FROM t'')],
         PDict [(''type'', PStr ''table''), (''sql'', PStr ''SELECT a, b FROM t'')]]
        (PStr ''Overview'')))
   = [Some (0, 0, 12, 8), Some (0, 0, 24, 8)]"
    by code_simp
  ultimately show ?thesis by simp
qed






text \<open>
  Claim C9 as stated fails: two calls of \<^verbatim>\<open>generate_panel\<close> with the same arguments that
  draw different UUIDs return different documents.
\<close>

theorem generate_panel_not_pure_counterexample:
  "generate_panel ''DuckDB'' 0x1b4e28ba2fa141d2883f0016d3cca427 [(''type'', PStr ''stat'')]
       (PStr ''SELECT 1'') (grid 0 0 12 8)
   \<noteq> generate_panel ''DuckDB'' 0x9f3c06c2b5a74be89d0e2a7c5f1d4e63 [(''type'', PStr ''stat'')]
       (PStr ''SELECT 1'') (grid 0 0 12 8)"
  by (simp add: generate_panel_def dict_get_def generate_panel_id_def)

lemma generate_panel_shape:
  "(\<exists>e. \<forall>u. generate_panel ds u panel_spec sql grid_pos = Inl e)
   \<or> (\<exists>rest. \<forall>u. generate_panel ds u panel_spec sql grid_pos
                    = Inr (PDict ((''id'', PInt (generate_panel_id u)) # rest)))"
  by (cases "bar_query panel_spec sql") (auto simp: generate_panel_def Let_def)

lemma scrub_panel_generate:
  "scrub_panel (generate_panel ds u panel_spec sql grid_pos)
   = scrub_panel (generate_panel ds u' panel_spec sql grid_pos)"
  using generate_panel_shape [of ds panel_spec sql grid_pos]
  by (auto simp: scrub_panel_def without_id_def dict_del_def)

lemma generate_panel_Inl:
  assumes "generate_panel ds u panel_spec sql grid_pos = Inl e"
  shows "generate_panel ds u' panel_spec sql grid_pos = Inl e"
  using generate_panel_shape [of ds panel_spec sql grid_pos] assms by auto

lemma generate_panel_Inr:
  assumes "generate_panel ds u panel_spec sql grid_pos = Inr p"
  shows "\<exists>p'. generate_panel ds u' panel_spec sql grid_pos = Inr p'
              \<and> without_id p' = without_id p"
  using generate_panel_shape [of ds panel_spec sql grid_pos] assms
  by (auto simp: without_id_def dict_del_def)

lemma layout_panels_scrub:
  "(layout_panels ds rng i y panels = Inl e \<longrightarrow> layout_panels ds rng' i y panels = Inl e)
   \<and> (layout_panels ds rng i y panels = Inr ps
      \<longrightarrow> (\<exists>ps'. layout_panels ds rng' i y panels = Inr ps'
                \<and> map without_id ps' = map without_id ps))"
proof (induction panels arbitrary: i y e ps)
  case Nil
  show ?case by auto
next
  case (Cons panel_spec rest)
  show ?case
  proof (cases panel_spec)
    case (PDict spec)
    show ?thesis
    proof (cases "dict_get spec ''viz'' panel_spec")
      case viz: (PDict viz)
      define sql where "sql = dict_get spec ''sql'' (PStr [])"
      define full where "full = (dict_get viz ''type'' (PStr ''bar'') = PStr ''table''
                                 \<or> dict_get viz ''type'' (PStr ''bar'') = PStr ''line'')"
      define gp where "gp = (if full then grid 0 y 24 8 else grid (int (i mod 2) * 12) y 12 8)"
      define yn where "yn = (if full \<or> int (i mod 2) = 1 then y + 8 else y)"
      have l: "layout_panels ds r i y (panel_spec # rest) =
            (case generate_panel ds (r (Suc i)) viz sql gp of
               Inl e \<Rightarrow> Inl e
             | Inr panel \<Rightarrow>
                 (case layout_panels ds r (Suc i) yn rest of
                    Inl e \<Rightarrow> Inl e
                  | Inr ps \<Rightarrow> Inr (panel # ps)))" for r
        unfolding sql_def full_def gp_def yn_def
        using PDict viz by (simp add: Let_def)
      show ?thesis
      proof (cases "generate_panel ds (rng (Suc i)) viz sql gp")
        case (Inl e0)
        then have "generate_panel ds (rng' (Suc i)) viz sql gp = Inl e0"
          by (rule generate_panel_Inl)
        with Inl show ?thesis unfolding l by simp
      next
        case (Inr p)
        then obtain p' where p': "generate_panel ds (rng' (Suc i)) viz sql gp = Inr p'"
            "without_id p' = without_id p"
          using generate_panel_Inr by blast
        show ?thesis
        proof (cases "layout_panels ds rng (Suc i) yn rest")
          case (Inl e1)
          then have "layout_panels ds rng' (Suc i) yn rest = Inl e1"
            using Cons.IH by blast
          with Inl Inr p' show ?thesis unfolding l by simp
        next
          case qs: (Inr qs)
          then obtain qs' where qs': "layout_panels ds rng' (Suc i) yn rest = Inr qs'"
              "map without_id qs' = map without_id qs"
            using Cons.IH by blast
          with qs Inr p' show ?thesis unfolding l by auto
        qed
      qed
    qed (use PDict in simp_all)
  qed simp_all
qed

lemma scrub_dashboard_doc:
  "scrub_dashboard (Inr (dashboard_doc uid title tags refresh time_from ps))
   = Inr (PDict [(''title'', title), (''tags'', PList (map PStr tags)),
            (''timezone'', PStr ''browser''), (''schemaVersion'', PInt 38),
            (''version'', PInt 1), (''refresh'', PStr refresh),
            (''time'', PDict [(''from'', PStr time_from), (''to'', PStr ''now'')]),
            (''panels'', PList (map without_id ps))])"
  by (simp add: scrub_dashboard_def dashboard_doc_def dict_del_def)

lemma scrub_dashboard_Inl: "scrub_dashboard (Inl e) = Inl e"
  by (simp add: scrub_dashboard_def)

lemma multi_panel_scrub:
  "scrub_dashboard (generate_multi_panel_dashboard ds rng panels title)
   = scrub_dashboard (generate_multi_panel_dashboard ds rng' panels title)"
proof (cases "layout_panels ds rng 0 0 panels")
  case (Inl e)
  then have "layout_panels ds rng' 0 0 panels = Inl e"
    using layout_panels_scrub by blast
  with Inl show ?thesis
    by (simp add: generate_multi_panel_dashboard_def)
next
  case (Inr ps)
  then obtain ps' where "layout_panels ds rng' 0 0 panels = Inr ps'"
      "map without_id ps' = map without_id ps"
    using layout_panels_scrub by blast
  with Inr show ?thesis
    by (simp add: generate_multi_panel_dashboard_def scrub_dashboard_doc)
qed

lemma single_panel_scrub:
  "scrub_dashboard
     (case generate_panel ds u d sql gp of
        Inl e \<Rightarrow> Inl e
      | Inr panel \<Rightarrow> Inr (dashboard_doc uid title tags refresh time_from [panel]))
   = scrub_dashboard
     (case generate_panel ds u' d sql gp of
        Inl e \<Rightarrow> Inl e
      | Inr panel \<Rightarrow> Inr (dashboard_doc uid' title tags refresh time_from [panel]))"
proof (cases "generate_panel ds u d sql gp")
  case (Inl e)
  then have "generate_panel ds u' d sql gp = Inl e"
    using generate_panel_Inl by blast
  with Inl show ?thesis by simp
next
  case (Inr p)
  then obtain p' where "generate_panel ds u' d sql gp = Inr p'" "without_id p' = without_id p"
    using generate_panel_Inr by blast
  with Inr show ?thesis by (simp add: scrub_dashboard_doc)
qed

lemma generate_dashboard_scrub:
  "scrub_dashboard (generate_dashboard ds rng plan title_arg)
   = scrub_dashboard (generate_dashboard ds rng' plan title_arg)"
proof -
  define sql where "sql = dict_get plan ''sql'' (PStr [])"
  define viz where "viz = dict_get plan ''viz'' (PDict [])"
  define title_res where "title_res =
            (if truthy title_arg then Inr title_arg
             else case slice50 (dict_get plan ''q''
                       (dict_get plan ''question'' (PStr ''Analytics Dashboard''))) of
                    Inl e \<Rightarrow> Inl e
                  | Inr q50 \<Rightarrow>
                      (case viz of
                         PDict d \<Rightarrow> Inr (dict_get d ''title'' q50)
                       | _ \<Rightarrow> Inr q50))"
  define single where "single = (\<lambda>(r :: nat \<Rightarrow> nat) title.
                  (if truthy viz \<and> truthy sql then
                     (case viz of
                        PDict d \<Rightarrow>
                          (case generate_panel ds (r 1) d sql (grid 0 0 24 12) of
                             Inl e \<Rightarrow> Inl e
                           | Inr panel \<Rightarrow>
                               Inr (dashboard_doc (generate_uid (r 0)) title
                                      [''auto-generated'', ''analytics''] ''5s'' ''now-1h''
                                      [panel]))
                      | _ \<Rightarrow> Inl AttributeError)
                   else Inr (dashboard_doc (generate_uid (r 0)) title
                               [''auto-generated'', ''analytics''] ''5s'' ''now-1h'' [])))"
  have g: "generate_dashboard ds r plan title_arg =
           (case title_res of
              Inl e \<Rightarrow> Inl e
            | Inr title \<Rightarrow>
               (case viz of
                  PList ps \<Rightarrow>
                    (case enrich_panels sql ps of
                       Inl e \<Rightarrow> Inl e
                     | Inr enriched \<Rightarrow> generate_multi_panel_dashboard ds r enriched title)
                | _ \<Rightarrow> single r title))" for r
    unfolding sql_def viz_def title_res_def single_def generate_dashboard_def Let_def
    by (rule refl)
  have s: "scrub_dashboard (single rng title) = scrub_dashboard (single rng' title)" for title
    unfolding single_def
    by (cases viz) (simp_all add: single_panel_scrub scrub_dashboard_doc)
  show ?thesis
  proof (cases title_res)
    case (Inl e)
    then show ?thesis unfolding g by simp
  next
    case (Inr title)
    show ?thesis
    proof (cases viz)
      case (PList ps)
      then show ?thesis
        unfolding g using Inr
        by (cases "enrich_panels sql ps") (simp_all add: multi_panel_scrub)
    qed (use Inr s in \<open>simp_all add: g\<close>)
  qed
qed

text \<open>
  Claim C9, as the code has it: the documents of two calls with the same arguments agree
  once the random identifiers are taken out, whatever UUIDs the two calls draw; a call
  that raises does so in both.
\<close>

theorem generation_pure_up_to_identifiers:
  "scrub_panel (generate_panel ds u panel_spec sql grid_pos)
     = scrub_panel (generate_panel ds u' panel_spec sql grid_pos)
   \<and> scrub_dashboard (generate_dashboard ds rng plan title)
     = scrub_dashboard (generate_dashboard ds rng' plan title)"
  using scrub_panel_generate generate_dashboard_scrub by blast

section \<open>Properties of the serializer\<close>


lemma dict_del_idem: "dict_del t (dict_del t d) = dict_del t d"
  by (simp add: dict_del_def)





end
